theory Spec2Isabelle
  imports Complex_Main
begin

section \<open>The medical cost predictor (app\_py.py)\<close>

text \<open>
  The program is a Streamlit script. Streamlit runs the whole script once for every user
  interaction; one such run is modelled by \<open>script_run\<close> below. Everything the run
  shows on the page is a list of \<open>ui_event\<close>s, every call of \<open>stack.predict\<close> is
  recorded in a trace, and the resource cache of \<open>@st.cache_resource\<close> is the explicit
  process state that one run hands to the next.

  Numbers: the values in the array that the pipeline returns have some Python type
  \<open>'n\<close> (for scikit-learn a 64-bit float; for a pipeline with several outputs a row of
  them). What multiplying such a value by the rate gives, and whether formatting it
  raises, belongs to that type and is a parameter of the model (\<open>pyops\<close>), so nothing
  below depends on how the type rounds. The rate is the module constant
  \<open>USD_TO_INR_RATE\<close>, a Python float.
\<close>

subsection \<open>Exceptions\<close>

text \<open>
  The exceptions the script can meet, each with its text \<open>str(e)\<close>. All of them are
  subclasses of Python's \<open>Exception\<close>; \<open>Exception\<close> itself stands for every class
  the script does not tell apart.
\<close>

datatype py_exception =
    FileNotFoundError string
  | IndexError string
  | Exception string

fun str :: "py_exception \<Rightarrow> string" where
  "str (FileNotFoundError m) = m"
| "str (IndexError m) = m"
| "str (Exception m) = m"

subsection \<open>Feature records\<close>

text \<open>The values the six widgets produce: Python \<open>int\<close>, \<open>float\<close> and \<open>str\<close>.\<close>

datatype cell = IntV int | FloatV real | StrV string

text \<open>
  A Python \<open>dict\<close> keeps insertion order: an association list. A data frame has its
  column names and its rows; a cell that a row has no key for is missing (\<open>None\<close>).
\<close>

type_synonym pydict = "(string \<times> cell) list"

record dataframe =
  columns :: "string list"
  rows :: "cell option list list"

text \<open>
  \<open>pd.DataFrame(list_of_dicts)\<close>: the columns are the keys in order of first
  appearance, and there is one row for each dict.
\<close>

fun add_key :: "string list \<Rightarrow> string \<Rightarrow> string list" where
  "add_key ks k = (if k \<in> set ks then ks else ks @ [k])"

definition frame_columns :: "pydict list \<Rightarrow> string list" where
  "frame_columns ds = foldl add_key [] (concat (map (map fst) ds))"

definition pd_DataFrame :: "pydict list \<Rightarrow> dataframe" where
  "pd_DataFrame ds =
     \<lparr>columns = frame_columns ds,
      rows = map (\<lambda>d. map (map_of d) (frame_columns ds)) ds\<rparr>"

subsection \<open>The trained pipeline and its artifact\<close>

text \<open>
  The pipeline is opaque: \<open>stack.predict(features_df)\<close> raises or returns an array of
  predictions. It is a function of the frame alone (a deterministic pipeline).
\<close>

type_synonym 'n stack = "dataframe \<Rightarrow> py_exception + 'n list"

text \<open>
  What is stored under a file name: bytes that do not deserialize (with the exception
  that \<open>joblib.load\<close> raises on them, of whatever class: a pickle whose loading opens a
  file that is not there raises \<open>FileNotFoundError\<close>) or a pickled pipeline. A name with
  no file is not in the map.
\<close>

datatype 'n artifact = Corrupt py_exception | Pickled "'n stack"

type_synonym 'n filesystem = "string \<rightharpoonup> 'n artifact"

definition joblib_load :: "'n filesystem \<Rightarrow> string \<Rightarrow> py_exception + 'n stack" where
  "joblib_load fs name =
     (case fs name of
        None \<Rightarrow> Inl (FileNotFoundError (''[Errno 2] No such file or directory: '' @ name))
      | Some (Corrupt e) \<Rightarrow> Inl e
      | Some (Pickled s) \<Rightarrow> Inr s)"

subsection \<open>What the page shows\<close>

datatype currency = USD | INR

text \<open>
  \<open>St_error\<close> carries the message of \<open>st.error\<close>. \<open>St_metric\<close> carries the amount
  that \<open>st.metric\<close> displays (the page shows its text with two decimals), and
  \<open>St_formula\<close> the rate that the conversion formula box displays.
\<close>

datatype 'n ui_event =
    St_error string
  | St_success
  | St_metric currency 'n
  | St_formula real

text \<open>
  The two operations the script applies to a predicted value \<open>x\<close>:
  \<open>x * USD_TO_INR_RATE\<close>, which raises or gives a value of the same type, and the
  format specification \<open>:,.2f\<close>, which raises or gives a text.
\<close>

record 'n pyops =
  times_float :: "'n \<Rightarrow> real \<Rightarrow> py_exception + 'n"
  format_error :: "'n \<Rightarrow> py_exception option"

text \<open>\<open>st.stop()\<close> ends the run of the script; otherwise the run goes on with a value.\<close>

datatype 'a control = Continue 'a | Stopped

subsection \<open>Configuration and model loading (lines 14 to 35)\<close>

definition USD_TO_INR_RATE :: real where
  "USD_TO_INR_RATE = 83.50"

definition model_filename :: string where
  "model_filename = ''medical_cost_stack.pkl''"

definition not_found_message :: string where
  "not_found_message =
     ''Error: Model file '' @ [CHR 0x27] @ model_filename @ [CHR 0x27] @ '' not found. '' @
     ''Please ensure the file is in the root of your GitHub repository.''"

definition load_error_message :: "py_exception \<Rightarrow> string" where
  "load_error_message e = ''Error loading model: '' @ str e"

text \<open>
  \<open>load_pipeline\<close>: the body of the function, with the \<open>except\<close> clauses in the
  order of the source.
\<close>

definition load_pipeline :: "'n filesystem \<Rightarrow> 'n ui_event list \<times> 'n stack control" where
  "load_pipeline fs =
     (case joblib_load fs model_filename of
        Inr stack \<Rightarrow> ([], Continue stack)
      | Inl (FileNotFoundError m) \<Rightarrow> ([St_error not_found_message], Stopped)
      | Inl e \<Rightarrow> ([St_error (load_error_message e)], Stopped))"

text \<open>
  The process state: the entry of the resource cache for \<open>load_pipeline()\<close>, and the
  number of times \<open>joblib.load\<close> has been called so far.
\<close>

record 'n process =
  cache :: "'n stack option"
  loads :: nat

definition initial_process :: "'n process" where
  "initial_process = \<lparr>cache = None, loads = 0\<rparr>"

text \<open>
  \<open>@st.cache_resource\<close>: a call that finds an entry returns it and does not run the
  function; a call that finds none runs the function and stores what it returns. A run
  that ends in \<open>st.stop()\<close> returns nothing, so nothing is stored.
\<close>

definition cached_load_pipeline ::
  "'n filesystem \<Rightarrow> 'n process \<Rightarrow> ('n ui_event list \<times> 'n stack control) \<times> 'n process" where
  "cached_load_pipeline fs st =
     (case cache st of
        Some stack \<Rightarrow> (([], Continue stack), st)
      | None \<Rightarrow>
          (case load_pipeline fs of
             (out, Continue stack) \<Rightarrow>
               ((out, Continue stack), st\<lparr>cache := Some stack, loads := loads st + 1\<rparr>)
           | (out, Stopped) \<Rightarrow> ((out, Stopped), st\<lparr>loads := loads st + 1\<rparr>)))"

text \<open>
  A sequence of calls in one process, each with the file system as it is at that moment.
\<close>

fun get_calls ::
  "'n filesystem list \<Rightarrow> 'n process \<Rightarrow> ('n ui_event list \<times> 'n stack control) list \<times> 'n process" where
  "get_calls [] st = ([], st)"
| "get_calls (fs # fss) st =
     (case cached_load_pipeline fs st of
        (r, st') \<Rightarrow> (case get_calls fss st' of (rs, st'') \<Rightarrow> (r # rs, st'')))"

subsection \<open>The input widgets (lines 52 to 77)\<close>

datatype widget =
    Slider int int int
  | NumberInput real real real real
  | Selectbox "string list"

definition age_widget :: widget where
  "age_widget = Slider 18 65 30"

definition sex_widget :: widget where
  "sex_widget = Selectbox [''male'', ''female'']"

definition smoker_widget :: widget where
  "smoker_widget = Selectbox [''no'', ''yes'']"

definition bmi_widget :: widget where
  "bmi_widget = NumberInput 15.0 55.0 25.0 0.1"

definition children_widget :: widget where
  "children_widget = Slider 0 5 0"

definition region_widget :: widget where
  "region_widget = Selectbox [''southeast'', ''southwest'', ''northeast'', ''northwest'']"

text \<open>
  What a widget can return: a slider (minimum, maximum, default) an integer between its
  bounds, a number input (minimum, maximum, default, step) a float between its bounds,
  a select box one of its options.
\<close>

fun widget_returns :: "widget \<Rightarrow> cell \<Rightarrow> bool" where
  "widget_returns (Slider lo hi d) (IntV v) = (lo \<le> v \<and> v \<le> hi)"
| "widget_returns (NumberInput lo hi d step) (FloatV v) = (lo \<le> v \<and> v \<le> hi)"
| "widget_returns (Selectbox options) (StrV s) = (s \<in> set options)"
| "widget_returns _ _ = False"

text \<open>The script's variables after the widgets have run, and whether the button was pressed.\<close>

record inputs =
  age :: int
  sex :: string
  bmi :: real
  children :: int
  smoker :: string
  region :: string
  button :: bool

definition from_widgets :: "inputs \<Rightarrow> bool" where
  "from_widgets inp \<longleftrightarrow>
     widget_returns age_widget (IntV (age inp)) \<and>
     widget_returns sex_widget (StrV (sex inp)) \<and>
     widget_returns smoker_widget (StrV (smoker inp)) \<and>
     widget_returns bmi_widget (FloatV (bmi inp)) \<and>
     widget_returns children_widget (IntV (children inp)) \<and>
     widget_returns region_widget (StrV (region inp))"

subsection \<open>Prediction logic (lines 82 to 141)\<close>

definition input_data :: "inputs \<Rightarrow> pydict" where
  "input_data inp =
     [(''age'', IntV (age inp)),
      (''sex'', StrV (sex inp)),
      (''bmi'', FloatV (bmi inp)),
      (''children'', IntV (children inp)),
      (''smoker'', StrV (smoker inp)),
      (''region'', StrV (region inp))]"

definition features_df :: "inputs \<Rightarrow> dataframe" where
  "features_df inp = pd_DataFrame [input_data inp]"

text \<open>\<open>a[0]\<close> raises \<open>IndexError\<close> on an empty array.\<close>

definition getitem0 :: "'a list \<Rightarrow> py_exception + 'a" where
  "getitem0 xs =
     (case xs of
        [] \<Rightarrow> Inl (IndexError ''index 0 is out of bounds for axis 0 with size 0'')
      | x # _ \<Rightarrow> Inr x)"

text \<open>
  The body of the \<open>try\<close> (lines 99 to 136), statement by statement: what it has shown when
  it ends, and the exception that ended it, if any. Line 100 may raise in the pipeline or
  in \<open>[0]\<close>, line 103 in the multiplication. The banner of line 106 is on the page
  before the two amounts are formatted at lines 114 and 121, so an exception raised by
  the formatting leaves the banner, and after line 114 also the first amount, on the page.
\<close>

definition try_body ::
  "'n pyops \<Rightarrow> 'n stack \<Rightarrow> dataframe \<Rightarrow> 'n ui_event list \<times> py_exception option" where
  "try_body ops stack df =
     (case stack df of
        Inl e \<Rightarrow> ([], Some e)
      | Inr ys \<Rightarrow>
          (case getitem0 ys of
             Inl e \<Rightarrow> ([], Some e)
           | Inr prediction_usd \<Rightarrow>
               (case times_float ops prediction_usd USD_TO_INR_RATE of
                  Inl e \<Rightarrow> ([], Some e)
                | Inr prediction_inr \<Rightarrow>
                    (case format_error ops prediction_usd of
                       Some e \<Rightarrow> ([St_success], Some e)
                     | None \<Rightarrow>
                         (case format_error ops prediction_inr of
                            Some e \<Rightarrow> ([St_success, St_metric USD prediction_usd], Some e)
                          | None \<Rightarrow>
                              ([St_success, St_metric USD prediction_usd,
                                St_metric INR prediction_inr, St_formula USD_TO_INR_RATE],
                               None))))))"

definition prediction_error_message :: "py_exception \<Rightarrow> string" where
  "prediction_error_message e =
     ''An error occurred during prediction. Please check model and inputs. Error details: '' @ str e"

text \<open>
  The body of the \<open>if st.button(...)\<close> block: the \<open>try\<close> and its handler (line 140).
  The result is what the block shows and the frames it passed to \<open>stack.predict\<close>.
\<close>

definition predict_block ::
  "'n pyops \<Rightarrow> 'n stack \<Rightarrow> inputs \<Rightarrow> 'n ui_event list \<times> dataframe list" where
  "predict_block ops stack inp =
     (let df = features_df inp
      in (case try_body ops stack df of
            (shown, None) \<Rightarrow> (shown, [df])
          | (shown, Some e) \<Rightarrow> (shown @ [St_error (prediction_error_message e)], [df])))"

text \<open>One run of the script: the page, the inference calls, and the process state after it.\<close>

definition script_run ::
  "'n pyops \<Rightarrow> 'n filesystem \<Rightarrow> inputs \<Rightarrow> 'n process \<Rightarrow>
     'n ui_event list \<times> dataframe list \<times> 'n process" where
  "script_run ops fs inp st =
     (case cached_load_pipeline fs st of
        ((out, Stopped), st') \<Rightarrow> (out, [], st')
      | ((out, Continue stack), st') \<Rightarrow>
          (if button inp
           then (case predict_block ops stack inp of
                   (shown, calls) \<Rightarrow> (out @ shown, calls, st'))
           else (out, [], st')))"

subsection \<open>The documented domains of a profile\<close>

text \<open>
  The domains as the specification's data model words them: age in 18..65, bmi in
  15.0..55.0, children in 0..5, and the three enumerations.
\<close>

definition in_domain :: "inputs \<Rightarrow> bool" where
  "in_domain inp \<longleftrightarrow>
     18 \<le> age inp \<and> age inp \<le> 65 \<and>
     sex inp \<in> {''male'', ''female''} \<and>
     15 \<le> bmi inp \<and> bmi inp \<le> 55 \<and>
     0 \<le> children inp \<and> children inp \<le> 5 \<and>
     smoker inp \<in> {''no'', ''yes''} \<and>
     region inp \<in> {''southeast'', ''southwest'', ''northeast'', ''northwest''}"

subsection \<open>Concrete inputs\<close>

text \<open>
  The profile of the specification's scenario. Floats that multiply and format without
  error, and rows of floats (the elements of a two-dimensional result), which multiply
  elementwise and do not accept the format specification. Pipelines that predict one
  fixed value for every frame, and one whose encoder rejects every frame. States of the
  file system: the artifact in place, bytes that are no pickle, a pickle whose loading
  looks for a file that is not there, no artifact, the rejecting pipeline, a pipeline
  that predicts a negative amount, and a pipeline with a two-dimensional result.
\<close>

definition scenario_profile :: inputs where
  "scenario_profile =
     \<lparr>age = 30, sex = ''male'', bmi = 25.0, children = 0, smoker = ''no'',
      region = ''southeast'', button = True\<rparr>"

definition float_ops :: "real pyops" where
  "float_ops = \<lparr>times_float = (\<lambda>x r. Inr (x * r)), format_error = (\<lambda>x. None)\<rparr>"


definition constant_stack :: "'n \<Rightarrow> 'n stack" where
  "constant_stack y df = Inr [y]"


definition artifact_present :: "real filesystem" where
  "artifact_present = [model_filename \<mapsto> Pickled (constant_stack 100)]"

definition artifact_corrupt :: "real filesystem" where
  "artifact_corrupt = [model_filename \<mapsto> Corrupt (Exception ''invalid load key'')]"


definition artifact_missing :: "real filesystem" where
  "artifact_missing = Map.empty"


definition artifact_negative :: "real filesystem" where
  "artifact_negative = [model_filename \<mapsto> Pickled (constant_stack (- 1))]"


section \<open>Auxiliary facts\<close>

subsection \<open>Feature shaping and the prediction block\<close>

lemma features_df_unfold:
  "features_df inp =
     \<lparr>columns = [''age'', ''sex'', ''bmi'', ''children'', ''smoker'', ''region''],
      rows = [[Some (IntV (age inp)), Some (StrV (sex inp)), Some (FloatV (bmi inp)),
               Some (IntV (children inp)), Some (StrV (smoker inp)), Some (StrV (region inp))]]\<rparr>"
  by (simp add: features_df_def pd_DataFrame_def frame_columns_def input_data_def)

lemma predict_block_calls: "snd (predict_block ops stack inp) = [features_df inp]"
  by (simp add: predict_block_def Let_def split: prod.splits option.splits)

text \<open>The six ways in which the body of the \<open>try\<close> can end.\<close>

lemma try_body_cases:
  assumes "try_body ops stack df = (shown, r)"
  obtains
    (raised) e where "stack df = Inl e" "shown = []" "r = Some e"
  | (empty) "stack df = Inr []" "shown = []"
      "r = Some (IndexError ''index 0 is out of bounds for axis 0 with size 0'')"
  | (product) usd ys e where "stack df = Inr (usd # ys)"
      "times_float ops usd USD_TO_INR_RATE = Inl e" "shown = []" "r = Some e"
  | (format_usd) usd ys inr e where "stack df = Inr (usd # ys)"
      "times_float ops usd USD_TO_INR_RATE = Inr inr" "format_error ops usd = Some e"
      "shown = [St_success]" "r = Some e"
  | (format_inr) usd ys inr e where "stack df = Inr (usd # ys)"
      "times_float ops usd USD_TO_INR_RATE = Inr inr" "format_error ops usd = None"
      "format_error ops inr = Some e" "shown = [St_success, St_metric USD usd]" "r = Some e"
  | (complete) usd ys inr where "stack df = Inr (usd # ys)"
      "times_float ops usd USD_TO_INR_RATE = Inr inr" "format_error ops usd = None"
      "format_error ops inr = None"
      "shown = [St_success, St_metric USD usd, St_metric INR inr, St_formula USD_TO_INR_RATE]"
      "r = None"
proof (cases "stack df")
  case (Inl e)
  with assms have "shown = []" "r = Some e"
    by (auto simp: try_body_def)
  with Inl show ?thesis
    by (rule raised)
next
  case (Inr xs)
  show ?thesis
  proof (cases xs)
    case Nil
    with Inr assms have "shown = []"
      "r = Some (IndexError ''index 0 is out of bounds for axis 0 with size 0'')"
      by (auto simp: try_body_def getitem0_def)
    with Inr [unfolded Nil] show ?thesis
      by (rule empty)
  next
    case (Cons usd ys)
    note stack = Inr [unfolded Cons]
    show ?thesis
    proof (cases "times_float ops usd USD_TO_INR_RATE")
      case (Inl e)
      with stack assms have "shown = []" "r = Some e"
        by (auto simp: try_body_def getitem0_def)
      with stack Inl show ?thesis
        by (rule product)
    next
      case (Inr inr)
      note times = this
      show ?thesis
      proof (cases "format_error ops usd")
        case (Some e)
        with stack times assms have "shown = [St_success]" "r = Some e"
          by (auto simp: try_body_def getitem0_def)
        with stack times Some show ?thesis
          by (rule format_usd)
      next
        case None
        note usd = this
        show ?thesis
        proof (cases "format_error ops inr")
          case (Some e)
          with stack times usd assms have "shown = [St_success, St_metric USD usd]" "r = Some e"
            by (auto simp: try_body_def getitem0_def)
          with stack times usd Some show ?thesis
            by (rule format_inr)
        next
          case None
          with stack times usd assms
          have "shown = [St_success, St_metric USD usd, St_metric INR inr,
              St_formula USD_TO_INR_RATE]" "r = None"
            by (auto simp: try_body_def getitem0_def)
          with stack times usd None show ?thesis
            by (rule complete)
        qed
      qed
    qed
  qed
qed

lemma predict_block_fst:
  "fst (predict_block ops stack inp) =
     (case try_body ops stack (features_df inp) of
        (shown, None) \<Rightarrow> shown
      | (shown, Some e) \<Rightarrow> shown @ [St_error (prediction_error_message e)])"
  by (simp add: predict_block_def Let_def split: prod.splits option.splits)

text \<open>The pages the prediction block can show.\<close>

lemma predict_block_pages:
  obtains
    (failed) e shown where "try_body ops stack (features_df inp) = (shown, Some e)"
      "fst (predict_block ops stack inp) = shown @ [St_error (prediction_error_message e)]"
      "shown = [] \<or> shown = [St_success] \<or>
       (\<exists>usd ys inr. stack (features_df inp) = Inr (usd # ys) \<and>
          times_float ops usd USD_TO_INR_RATE = Inr inr \<and> format_error ops usd = None \<and>
          shown = [St_success, St_metric USD usd])"
  | (complete) usd ys inr where "stack (features_df inp) = Inr (usd # ys)"
      "times_float ops usd USD_TO_INR_RATE = Inr inr"
      "format_error ops usd = None" "format_error ops inr = None"
      "fst (predict_block ops stack inp) =
         [St_success, St_metric USD usd, St_metric INR inr, St_formula USD_TO_INR_RATE]"
proof -
  obtain shown r where t: "try_body ops stack (features_df inp) = (shown, r)"
    by (cases "try_body ops stack (features_df inp)")
  from t show ?thesis
  proof (cases rule: try_body_cases)
    case (complete usd ys inr)
    with t have "fst (predict_block ops stack inp) =
         [St_success, St_metric USD usd, St_metric INR inr, St_formula USD_TO_INR_RATE]"
      by (simp add: predict_block_fst)
    with complete show ?thesis
      by (blast intro: that(2))
  next
    case (raised e)
    with t have "try_body ops stack (features_df inp) = (shown, Some e)"
      "fst (predict_block ops stack inp) = shown @ [St_error (prediction_error_message e)]"
      by (simp_all add: predict_block_fst)
    with raised show ?thesis
      by (blast intro: that(1))
  next
    case empty
    with t have "try_body ops stack (features_df inp) =
        (shown, Some (IndexError ''index 0 is out of bounds for axis 0 with size 0''))"
      "fst (predict_block ops stack inp) = shown @ [St_error (prediction_error_message
          (IndexError ''index 0 is out of bounds for axis 0 with size 0''))]"
      by (simp_all add: predict_block_fst)
    with empty show ?thesis
      by (blast intro: that(1))
  next
    case (product usd ys e)
    with t have "try_body ops stack (features_df inp) = (shown, Some e)"
      "fst (predict_block ops stack inp) = shown @ [St_error (prediction_error_message e)]"
      by (simp_all add: predict_block_fst)
    with product show ?thesis
      by (blast intro: that(1))
  next
    case (format_usd usd ys inr e)
    with t have "try_body ops stack (features_df inp) = (shown, Some e)"
      "fst (predict_block ops stack inp) = shown @ [St_error (prediction_error_message e)]"
      by (simp_all add: predict_block_fst)
    with format_usd show ?thesis
      by (blast intro: that(1))
  next
    case (format_inr usd ys inr e)
    with t have "try_body ops stack (features_df inp) = (shown, Some e)"
      "fst (predict_block ops stack inp) = shown @ [St_error (prediction_error_message e)]"
      by (simp_all add: predict_block_fst)
    with format_inr show ?thesis
      by (blast intro: that(1))
  qed
qed

subsection \<open>Loading and the cache\<close>




lemma load_pipeline_Continue: "load_pipeline fs = (out, Continue s) \<Longrightarrow> out = []"
  by (auto simp: load_pipeline_def split: sum.splits py_exception.splits)

lemma load_pipeline_Stopped:
  "load_pipeline fs = (out, Stopped) \<Longrightarrow>
     out = [St_error not_found_message] \<or> (\<exists>e. out = [St_error (load_error_message e)])"
  by (auto simp: load_pipeline_def split: sum.splits py_exception.splits)

lemma cached_hit: "cache st = Some s \<Longrightarrow> cached_load_pipeline fs st = (([], Continue s), st)"
  by (simp add: cached_load_pipeline_def)

lemma cached_Continue:
  "cached_load_pipeline fs st = ((out, Continue s), st1) \<Longrightarrow> out = [] \<and> cache st1 = Some s"
  by (auto simp: cached_load_pipeline_def
      split: option.splits prod.splits control.splits dest: load_pipeline_Continue)

lemma cached_Stopped:
  "cached_load_pipeline fs st = ((out, Stopped), st1) \<Longrightarrow>
     cache st = None \<and> cache st1 = None \<and> loads st1 = loads st + 1 \<and>
     (out = [St_error not_found_message] \<or> (\<exists>e. out = [St_error (load_error_message e)]))"
  by (auto simp: cached_load_pipeline_def split: option.splits prod.splits control.splits
      dest: load_pipeline_Stopped)

lemma cached_miss_loads:
  "cache st = None \<Longrightarrow> loads (snd (cached_load_pipeline fs st)) = loads st + 1"
  by (simp add: cached_load_pipeline_def split: prod.splits control.splits)


lemma get_calls_hit:
  "cache st = Some s \<Longrightarrow> get_calls fss st = (replicate (length fss) ([], Continue s), st)"
  by (induction fss) (simp_all add: cached_hit)


subsection \<open>One run of the script\<close>

lemma script_run_cases:
  assumes "script_run ops fs inp st = (out, calls, st1)"
  obtains
    (stopped) "cache st1 = None" "calls = []"
      "out = [St_error not_found_message] \<or> (\<exists>e. out = [St_error (load_error_message e)])"
  | (idle) s where "cache st1 = Some s" "\<not> button inp" "out = []" "calls = []"
  | (predicted) s where "cache st1 = Some s" "button inp"
      "out = fst (predict_block ops s inp)" "calls = [features_df inp]"
proof -
  obtain o1 c st' where c: "cached_load_pipeline fs st = ((o1, c), st')"
    by (metis prod.exhaust)
  show ?thesis
  proof (cases c)
    case Stopped
    with c assms have eq: "out = o1" "calls = []" "st1 = st'"
      by (simp_all add: script_run_def)
    from c Stopped have "cached_load_pipeline fs st = ((o1, Stopped), st')"
      by simp
    from cached_Stopped [OF this] eq have "cache st1 = None" "calls = []"
      "out = [St_error not_found_message] \<or> (\<exists>e. out = [St_error (load_error_message e)])"
      by simp_all
    then show ?thesis
      by (rule stopped)
  next
    case (Continue s)
    with c have s: "o1 = []" "cache st' = Some s"
      using cached_Continue by blast+
    show ?thesis
    proof (cases "button inp")
      case True
      with c Continue assms s have "st1 = st'" "out = fst (predict_block ops s inp)"
        "calls = snd (predict_block ops s inp)"
        by (auto simp: script_run_def split: prod.splits)
      with s True have "cache st1 = Some s" "button inp" "out = fst (predict_block ops s inp)"
        "calls = [features_df inp]"
        by (simp_all add: predict_block_calls)
      then show ?thesis
        by (rule predicted)
    next
      case False
      with c Continue assms s have "cache st1 = Some s" "\<not> button inp" "out = []" "calls = []"
        by (auto simp: script_run_def)
      then show ?thesis
        by (rule idle)
    qed
  qed
qed

lemma script_run_loaded:
  "cache st = Some s \<Longrightarrow>
     script_run ops fs inp st =
       (if button inp then (fst (predict_block ops s inp), [features_df inp], st)
        else ([], [], st))"
  using predict_block_calls [of ops s inp]
  by (auto simp: script_run_def cached_hit split: prod.splits)

lemma from_widgets_in_domain: "from_widgets inp \<Longrightarrow> in_domain inp"
  by (simp add: from_widgets_def in_domain_def age_widget_def sex_widget_def smoker_widget_def
      bmi_widget_def children_widget_def region_widget_def)

subsection \<open>The concrete runs\<close>

lemma scenario_run:
  "script_run float_ops artifact_present scenario_profile initial_process =
     ([St_success, St_metric USD 100, St_metric INR 8350, St_formula 83.5],
      [features_df scenario_profile],
      \<lparr>cache = Some (constant_stack 100), loads = 1\<rparr>)"
  by (simp add: script_run_def cached_load_pipeline_def load_pipeline_def joblib_load_def
      artifact_present_def initial_process_def predict_block_def try_body_def getitem0_def
      constant_stack_def scenario_profile_def USD_TO_INR_RATE_def float_ops_def)

lemma negative_run:
  "script_run float_ops artifact_negative scenario_profile initial_process =
     ([St_success, St_metric USD (- 1), St_metric INR (- 83.5), St_formula 83.5],
      [features_df scenario_profile],
      \<lparr>cache = Some (constant_stack (- 1)), loads = 1\<rparr>)"
  by (simp add: script_run_def cached_load_pipeline_def load_pipeline_def joblib_load_def
      artifact_negative_def initial_process_def predict_block_def try_body_def getitem0_def
      constant_stack_def scenario_profile_def USD_TO_INR_RATE_def float_ops_def)



lemma present_load:
  "cached_load_pipeline artifact_present initial_process =
     (([], Continue (constant_stack 100)), \<lparr>cache = Some (constant_stack 100), loads = 1\<rparr>)"
  by (simp add: cached_load_pipeline_def load_pipeline_def joblib_load_def artifact_present_def
      initial_process_def)

lemma corrupt_load:
  "cached_load_pipeline artifact_corrupt initial_process =
     (([St_error (''Error loading model: '' @ ''invalid load key'')], Stopped),
      \<lparr>cache = None, loads = 1\<rparr>)"
  by (simp add: cached_load_pipeline_def load_pipeline_def joblib_load_def artifact_corrupt_def
      initial_process_def load_error_message_def)

section \<open>The claims\<close>

subsection \<open>C1: currency conversion\<close>

text \<open>
  C1. A run of the script shows a converted amount only on the completed success page,
  and there the converted amount is what Python's product of the base amount and the
  rate 83.50 evaluates to, a value of the type of the base amount. The same holds of
  every run that shows the success banner and no error.
\<close>

theorem conversion_law:
  assumes "script_run ops fs inp st = (out, calls, st1)"
  shows "(St_metric INR inr \<in> set out \<longrightarrow>
            (\<exists>usd. out = [St_success, St_metric USD usd, St_metric INR inr, St_formula 83.50] \<and>
               times_float ops usd 83.50 = Inr inr)) \<and>
         (St_success \<in> set out \<and> (\<forall>m. St_error m \<notin> set out) \<longrightarrow>
            (\<exists>usd inr'. out = [St_success, St_metric USD usd, St_metric INR inr', St_formula 83.50] \<and>
               times_float ops usd 83.50 = Inr inr'))"
  using assms
proof (cases rule: script_run_cases)
  case stopped
  then show ?thesis by auto
next
  case (idle s)
  then show ?thesis by simp
next
  case (predicted s)
  show ?thesis
  proof (rule predict_block_pages [of ops s inp], goal_cases)
    case (1 e shown)
    with predicted show ?thesis by auto
  next
    case (2 usd ys inr')
    with predicted show ?thesis by (auto simp: USD_TO_INR_RATE_def)
  qed
qed

text \<open>
  The scenario of the specification: the profile (30, male, 25.0, 0, no, southeast) and a
  pipeline that predicts 100. The page shows 100 and 8350.
\<close>

theorem conversion_law_witness:
  "script_run float_ops artifact_present scenario_profile initial_process =
     ([St_success, St_metric USD 100, St_metric INR 8350, St_formula 83.5],
      [features_df scenario_profile],
      \<lparr>cache = Some (constant_stack 100), loads = 1\<rparr>) \<and>
   times_float float_ops 100 83.50 = Inr 8350"
proof -
  have "St_metric INR 8350 \<in> set [St_success, St_metric USD 100, St_metric INR (8350::real), St_formula 83.5]"
    by simp
  with conversion_law [OF scenario_run, of 8350]
  obtain usd where "[St_success, St_metric USD 100, St_metric INR (8350::real), St_formula 83.5] =
      [St_success, St_metric USD usd, St_metric INR 8350, St_formula 83.50]"
    "times_float float_ops usd 83.50 = Inr 8350"
    by blast
  then have "times_float float_ops 100 83.50 = Inr 8350"
    by simp
  with scenario_run show ?thesis
    by simp
qed

subsection \<open>C3: the base amount is whatever the pipeline returns\<close>

text \<open>
  C3 as stated fails. With a pipeline that returns \<open>-1\<close> for the scenario profile the
  run shows the success page with the base amount \<open>-1\<close> and the converted amount
  \<open>-83.5\<close>.
\<close>

theorem negative_amount_counterexample:
  "(- 1 :: real) < 0 \<and>
   script_run float_ops artifact_negative scenario_profile initial_process =
     ([St_success, St_metric USD (- 1), St_metric INR (- 83.5), St_formula 83.5],
      [features_df scenario_profile],
      \<lparr>cache = Some (constant_stack (- 1)), loads = 1\<rparr>)"
  using negative_run by simp

text \<open>
  C3, amended. A run with the button pressed shows a base amount exactly when the loaded
  pipeline returned a non-empty array whose first element can be multiplied by the rate
  and formatted; the amount shown is that first element. Nothing else is asked of it:
  there is no check of its sign or of its finiteness.
\<close>

theorem amount_base_is_pipeline_output:
  assumes "button inp" and "script_run ops fs inp st = (out, calls, st1)"
  shows "St_metric USD usd \<in> set out \<longleftrightarrow>
           (\<exists>s ys inr. cache st1 = Some s \<and> s (features_df inp) = Inr (usd # ys) \<and>
              times_float ops usd USD_TO_INR_RATE = Inr inr \<and> format_error ops usd = None)"
  using assms(2)
proof (cases rule: script_run_cases)
  case stopped
  then show ?thesis by auto
next
  case (idle s)
  with assms(1) show ?thesis by simp
next
  case (predicted s)
  obtain shown r where t: "try_body ops s (features_df inp) = (shown, r)"
    by (cases "try_body ops s (features_df inp)")
  from t have out: "out = (case r of None \<Rightarrow> shown | Some e \<Rightarrow> shown @ [St_error (prediction_error_message e)])"
    using predicted(3) by (simp add: predict_block_fst split: option.splits)
  from t show ?thesis
    by (cases rule: try_body_cases) (use out predicted(1) in auto)
qed

theorem amount_base_is_pipeline_output_witness:
  "button scenario_profile \<and>
   script_run float_ops artifact_present scenario_profile initial_process =
     ([St_success, St_metric USD 100, St_metric INR 8350, St_formula 83.5],
      [features_df scenario_profile],
      \<lparr>cache = Some (constant_stack 100), loads = 1\<rparr>) \<and>
   (\<exists>s ys inr. cache \<lparr>cache = Some (constant_stack (100::real)), loads = 1\<rparr> = Some s \<and>
      s (features_df scenario_profile) = Inr (100 # ys) \<and>
      times_float float_ops 100 USD_TO_INR_RATE = Inr inr \<and> format_error float_ops 100 = None)"
proof -
  have b: "button scenario_profile"
    by (simp add: scenario_profile_def)
  from amount_base_is_pipeline_output [OF b scenario_run, of 100] b scenario_run
  show ?thesis
    by simp
qed

subsection \<open>C5: a missing artifact and an unreadable artifact\<close>




subsection \<open>C6: the cached loader\<close>

text \<open>
  C6 as stated fails. The cache stores a pipeline only when \<open>load_pipeline\<close> returns
  one. With an artifact that does not deserialize, the second call in the same process
  runs \<open>joblib.load\<close> again: two calls, two reads of the file.
\<close>

theorem repeated_read_counterexample:
  "loads (snd (get_calls [artifact_corrupt, artifact_corrupt] initial_process)) = 2 \<and>
   fst (get_calls [artifact_corrupt, artifact_corrupt] initial_process) =
     [([St_error (''Error loading model: '' @ ''invalid load key'')], Stopped),
      ([St_error (''Error loading model: '' @ ''invalid load key'')], Stopped)]"
  by (simp add: cached_load_pipeline_def load_pipeline_def joblib_load_def artifact_corrupt_def
      initial_process_def load_error_message_def)

text \<open>
  C6, amended. Once a call of the cached loader has returned a pipeline, every later call
  in the process returns that same pipeline and leaves the process state as it is,
  whatever is in the file system by then: no further \<open>joblib.load\<close> runs, and the call
  that returned the pipeline ran it at most once. A call that fails has run
  \<open>joblib.load\<close> once and stores nothing, and the next call runs \<open>joblib.load\<close> again.
\<close>

theorem loaded_pipeline_reused:
  "(cached_load_pipeline fs st = ((out, Continue s), st1) \<longrightarrow>
      get_calls fss st1 = (replicate (length fss) ([], Continue s), st1) \<and>
      loads st1 \<le> loads st + 1) \<and>
   (cached_load_pipeline fs st = ((out, Stopped), st1) \<longrightarrow>
      cache st1 = None \<and> loads st1 = loads st + 1 \<and>
      loads (snd (cached_load_pipeline fs' st1)) = loads st1 + 1)"
proof (intro conjI impI)
  assume a: "cached_load_pipeline fs st = ((out, Continue s), st1)"
  then have "cache st1 = Some s"
    by (simp add: cached_Continue)
  then show "get_calls fss st1 = (replicate (length fss) ([], Continue s), st1)"
    by (rule get_calls_hit)
  from a show "loads st1 \<le> loads st + 1"
    by (auto simp: cached_load_pipeline_def split: option.splits prod.splits control.splits)
next
  assume a: "cached_load_pipeline fs st = ((out, Stopped), st1)"
  from cached_Stopped [OF a] show "cache st1 = None" "loads st1 = loads st + 1"
    by simp_all
  from cached_Stopped [OF a] show "loads (snd (cached_load_pipeline fs' st1)) = loads st1 + 1"
    by (simp add: cached_miss_loads)
qed

text \<open>
  The artifact is loaded by the first call; then it is deleted, then replaced by
  unreadable bytes: both later calls return the pipeline of the first, with one load in
  all. In another process the artifact is unreadable from the start: the first call
  loads once and fails, and the second call loads again.
\<close>

theorem loaded_pipeline_reused_witness:
  "cached_load_pipeline artifact_present initial_process =
     (([], Continue (constant_stack 100)), \<lparr>cache = Some (constant_stack 100), loads = 1\<rparr>) \<and>
   get_calls [artifact_missing, artifact_corrupt]
       \<lparr>cache = Some (constant_stack 100), loads = 1\<rparr> =
     ([([], Continue (constant_stack 100)), ([], Continue (constant_stack 100))],
      \<lparr>cache = Some (constant_stack 100), loads = 1\<rparr>) \<and>
   cached_load_pipeline artifact_corrupt initial_process =
     (([St_error (''Error loading model: '' @ ''invalid load key'')], Stopped),
      \<lparr>cache = None, loads = 1\<rparr>) \<and>
   loads (snd (cached_load_pipeline artifact_corrupt \<lparr>cache = None, loads = 1\<rparr>)) = 2"
proof -
  note hit = loaded_pipeline_reused [of artifact_present initial_process "[]"
      "constant_stack 100" "\<lparr>cache = Some (constant_stack 100), loads = 1\<rparr>"
      "[artifact_missing, artifact_corrupt]" artifact_corrupt]
  note miss = loaded_pipeline_reused [of artifact_corrupt initial_process
      "[St_error (''Error loading model: '' @ ''invalid load key'')]"
      "constant_stack 100" "\<lparr>cache = None, loads = 1\<rparr>" "[]" artifact_corrupt]
  from hit present_load
  have "get_calls [artifact_missing, artifact_corrupt]
       \<lparr>cache = Some (constant_stack 100), loads = 1\<rparr> =
     (replicate (length [artifact_missing, artifact_corrupt]) ([], Continue (constant_stack 100)),
      \<lparr>cache = Some (constant_stack 100), loads = 1\<rparr>)"
    by blast
  then have 1: "get_calls [artifact_missing, artifact_corrupt]
       \<lparr>cache = Some (constant_stack 100), loads = 1\<rparr> =
     ([([], Continue (constant_stack 100)), ([], Continue (constant_stack 100))],
      \<lparr>cache = Some (constant_stack 100), loads = 1\<rparr>)"
    by (simp only: length_Cons list.size replicate.simps One_nat_def plus_nat.simps)
  from miss corrupt_load
  have "loads (snd (cached_load_pipeline artifact_corrupt \<lparr>cache = None, loads = 1\<rparr>)) =
      loads \<lparr>cache = None :: real stack option, loads = 1\<rparr> + 1"
    by blast
  then have 2: "loads (snd (cached_load_pipeline artifact_corrupt \<lparr>cache = None, loads = 1\<rparr>)) = 2"
    by simp
  from present_load corrupt_load 1 2 show ?thesis
    by blast
qed

subsection \<open>C7: the same request twice\<close>

text \<open>
  C7. Take a run of the script after which the pipeline is loaded. A second run in the
  same process with the same widget values shows the same page, makes the same inference
  call and leaves the process state unchanged, whatever the file system holds by then; so
  the base amount is the same on both runs. On each run that shows a converted amount,
  it is the product of the base amount and the rate 83.50.
\<close>

theorem predict_twice_same_result:
  assumes "script_run ops fs inp st = (out, calls, st1)" and "cache st1 = Some s"
  shows "script_run ops fs' inp st1 = (out, calls, st1) \<and>
         (\<forall>inr. St_metric INR inr \<in> set out \<longrightarrow>
            (\<exists>usd. out = [St_success, St_metric USD usd, St_metric INR inr, St_formula 83.50] \<and>
               times_float ops usd 83.50 = Inr inr))"
proof -
  from assms(1) assms(2) have "script_run ops fs' inp st1 = (out, calls, st1)"
    by (cases rule: script_run_cases) (simp_all add: script_run_loaded)
  moreover have "\<forall>inr. St_metric INR inr \<in> set out \<longrightarrow>
      (\<exists>usd. out = [St_success, St_metric USD usd, St_metric INR inr, St_formula 83.50] \<and>
         times_float ops usd 83.50 = Inr inr)"
    using assms(1)
  proof (cases rule: script_run_cases)
    case stopped
    then show ?thesis by auto
  next
    case (idle s)
    then show ?thesis by simp
  next
    case (predicted s)
    show ?thesis
    proof (rule predict_block_pages [of ops s inp], goal_cases)
      case (1 e shown)
      with predicted show ?thesis by auto
    next
      case (2 usd ys inr')
      with predicted show ?thesis by (auto simp: USD_TO_INR_RATE_def)
    qed
  qed
  ultimately show ?thesis
    by simp
qed

theorem predict_twice_same_result_witness:
  "script_run float_ops artifact_present scenario_profile initial_process =
     ([St_success, St_metric USD 100, St_metric INR 8350, St_formula 83.5],
      [features_df scenario_profile],
      \<lparr>cache = Some (constant_stack 100), loads = 1\<rparr>) \<and>
   script_run float_ops artifact_missing scenario_profile
       \<lparr>cache = Some (constant_stack 100), loads = 1\<rparr> =
     ([St_success, St_metric USD 100, St_metric INR 8350, St_formula 83.5],
      [features_df scenario_profile],
      \<lparr>cache = Some (constant_stack 100), loads = 1\<rparr>)"
  using predict_twice_same_result [OF scenario_run, of "constant_stack 100" artifact_missing]
    scenario_run
  by simp

subsection \<open>C8: the feature record\<close>

text \<open>
  C8. For every profile the block passes exactly one frame to the pipeline. Its columns
  are the six names age, sex, bmi, children, smoker, region, in this order, and its single
  row holds the six values of the profile, the three strings as they were entered.
\<close>

theorem feature_record_shape:
  "snd (predict_block ops stack inp) = [features_df inp] \<and>
   columns (features_df inp) = [''age'', ''sex'', ''bmi'', ''children'', ''smoker'', ''region''] \<and>
   rows (features_df inp) =
     [[Some (IntV (age inp)), Some (StrV (sex inp)), Some (FloatV (bmi inp)),
       Some (IntV (children inp)), Some (StrV (smoker inp)), Some (StrV (region inp))]]"
  by (simp add: predict_block_calls features_df_unfold)

subsection \<open>C9: failures are reported, never replaced by a number\<close>



subsection \<open>C10: the widgets keep the profile in its domains\<close>

text \<open>
  C10. When the six values are values the six widgets can return, every frame that a run
  of the script passes to the pipeline is the frame of these values, and the values lie
  in the documented domains: age in 18..65, bmi in 15.0..55.0, children in 0..5, and
  sex, smoker and region among the listed options.
\<close>

theorem widgets_enforce_domains:
  assumes "from_widgets inp" and "script_run ops fs inp st = (out, calls, st1)"
    and "df \<in> set calls"
  shows "in_domain inp \<and> df = features_df inp \<and>
         rows df =
           [[Some (IntV (age inp)), Some (StrV (sex inp)), Some (FloatV (bmi inp)),
             Some (IntV (children inp)), Some (StrV (smoker inp)), Some (StrV (region inp))]]"
proof -
  from assms(2) assms(3) have "df = features_df inp"
    by (cases rule: script_run_cases) simp_all
  with from_widgets_in_domain [OF assms(1)] show ?thesis
    by (simp add: features_df_unfold)
qed

theorem widgets_enforce_domains_witness:
  "from_widgets scenario_profile \<and>
   script_run float_ops artifact_present scenario_profile initial_process =
     ([St_success, St_metric USD 100, St_metric INR 8350, St_formula 83.5],
      [features_df scenario_profile],
      \<lparr>cache = Some (constant_stack 100), loads = 1\<rparr>) \<and>
   features_df scenario_profile \<in> set [features_df scenario_profile] \<and>
   in_domain scenario_profile"
proof -
  have w: "from_widgets scenario_profile"
    by (simp add: from_widgets_def scenario_profile_def age_widget_def sex_widget_def
        smoker_widget_def bmi_widget_def children_widget_def region_widget_def)
  have d: "features_df scenario_profile \<in> set [features_df scenario_profile]"
    by simp
  from widgets_enforce_domains [OF w scenario_run d] w scenario_run d show ?thesis
    by blast
qed

end
